theory Spec2Isabelle
  imports Complex_Main "HOL-Library.AList"
begin

section \<open>Exceptions\<close>

text \<open>
  The program is one Python module, \<^verbatim>\<open>app.py\<close>. Every exception it can meet is a value:
  a function that may raise returns \<open>exn + 'a\<close>, with \<open>Inl\<close> for the raised exception.
  The payload of an exception is what \<^verbatim>\<open>str(e)\<close> is built from.
\<close>

datatype verror_type =
    Missing | IntType | IntParsing | IntFromFloat | FiniteNumber | ListType | StringType

datatype loc = Field string | Item string nat

datatype exn =
    ResponseError string
  | JSONDecodeError
  | TypeError string
  | ValidationError "(loc \<times> verror_type) list"
  | OtherException string

section \<open>Python values\<close>

text \<open>
  What \<^verbatim>\<open>json.loads\<close> returns and what \<^verbatim>\<open>model_dump()\<close> puts into its dictionary:
  \<^verbatim>\<open>None\<close>, booleans, unbounded integers, floats, strings, lists, and dictionaries with
  string keys. A string is the list of the bytes of its UTF-8 encoding. A dictionary is
  an association list in insertion order; assigning to a key that is present replaces its
  value in place (\<open>AList.update\<close>), as Python's \<^verbatim>\<open>dict\<close> does. A finite float is kept as
  the rational number it stands for.
\<close>

datatype pyfloat = Finite rat | PosInf | NegInf | NaN

datatype pyval =
    PyNone
  | PyBool bool
  | PyInt int
  | PyFloat pyfloat
  | PyStr string
  | PyList "pyval list"
  | PyDict "(string \<times> pyval) list"

section \<open>The JSON decoder, \<^verbatim>\<open>json.loads\<close>\<close>

text \<open>
  \<^verbatim>\<open>json.loads(content)\<close> with the default decoder: the whole text must be one JSON value
  between optional whitespace (space, tab, line feed, carriage return); anything else
  raises \<^verbatim>\<open>JSONDecodeError\<close>. As in Python, the literals \<^verbatim>\<open>NaN\<close>, \<^verbatim>\<open>Infinity\<close> and
  \<^verbatim>\<open>-Infinity\<close> are accepted, a number without fraction and exponent is an \<^verbatim>\<open>int\<close> and
  any other number a \<^verbatim>\<open>float\<close>, control characters are refused inside strings, and of
  two equal keys in an object the later value wins. A float literal is read as its exact
  decimal value (CPython rounds it to the nearest binary64).

  The text is first cut into tokens: punctuation, strings, and bare words (maximal runs
  of letters, digits, \<open>+\<close>, \<open>-\<close> and \<open>.\<close>), a bare word being a literal or a number.
\<close>

definition is_ws :: "char \<Rightarrow> bool" where
  "is_ws c = (c = CHR 0x20 \<or> c = CHR 0x09 \<or> c = CHR 0x0A \<or> c = CHR 0x0D)"

definition is_digit :: "char \<Rightarrow> bool" where
  "is_digit c = (48 \<le> (of_char c :: nat) \<and> (of_char c :: nat) \<le> 57)"

definition is_bare :: "char \<Rightarrow> bool" where
  "is_bare c = (is_digit c \<or> c = CHR ''-'' \<or> c = CHR ''+'' \<or> c = CHR ''.''
     \<or> (65 \<le> (of_char c :: nat) \<and> (of_char c :: nat) \<le> 90)
     \<or> (97 \<le> (of_char c :: nat) \<and> (of_char c :: nat) \<le> 122))"

definition decimal :: "string \<Rightarrow> nat" where
  "decimal ds = foldl (\<lambda>n d. 10 * n + (of_char d - 48)) 0 ds"

text \<open>
  Inside a string, \<^verbatim>\<open>\uXXXX\<close> takes exactly four hexadecimal digits. The code point is
  stored in UTF-8; a high surrogate followed by an escaped low surrogate is one code
  point, and a surrogate on its own is stored in the three-byte form.
\<close>

definition hex_digit :: "char \<Rightarrow> nat option" where
  "hex_digit c =
     (let n = (of_char c :: nat) in
      if 48 \<le> n \<and> n \<le> 57 then Some (n - 48)
      else if 65 \<le> n \<and> n \<le> 70 then Some (n - 55)
      else if 97 \<le> n \<and> n \<le> 102 then Some (n - 87)
      else None)"

fun decode_uXXXX :: "string \<Rightarrow> nat option" where
  "decode_uXXXX [a, b, c, d] =
     (case (hex_digit a, hex_digit b, hex_digit c, hex_digit d) of
        (Some x, Some y, Some z, Some w) \<Rightarrow> Some (((x * 16 + y) * 16 + z) * 16 + w)
      | _ \<Rightarrow> None)"
| "decode_uXXXX _ = None"

definition utf8_encode :: "nat \<Rightarrow> string" where
  "utf8_encode n = map char_of
     (if n < 0x80 then [n]
      else if n < 0x800 then [0xC0 + n div 0x40, 0x80 + n mod 0x40]
      else if n < 0x10000 then
        [0xE0 + n div 0x1000, 0x80 + (n div 0x40) mod 0x40, 0x80 + n mod 0x40]
      else
        [0xF0 + n div 0x40000, 0x80 + (n div 0x1000) mod 0x40,
         0x80 + (n div 0x40) mod 0x40, 0x80 + n mod 0x40])"

definition backslash_escape :: "char \<Rightarrow> char option" where
  "backslash_escape e =
     (if e = CHR 0x22 then Some (CHR 0x22)
      else if e = CHR 0x5C then Some (CHR 0x5C)
      else if e = CHR ''/'' then Some (CHR ''/'')
      else if e = CHR ''b'' then Some (CHR 0x08)
      else if e = CHR ''f'' then Some (CHR 0x0C)
      else if e = CHR ''n'' then Some (CHR 0x0A)
      else if e = CHR ''r'' then Some (CHR 0x0D)
      else if e = CHR ''t'' then Some (CHR 0x09)
      else None)"

text \<open>
  A string ends at the first double quote that no backslash escapes;
  \<open>closing_quote\<close> gives its position. \<open>scanstring\<close> then decodes the characters in
  between: escapes are replaced, an unknown escape or a character below \<open>0x20\<close> is an
  error.
\<close>

fun closing_quote :: "string \<Rightarrow> nat option" where
  "closing_quote [] = None"
| "closing_quote (c # cs) =
     (if c = CHR 0x22 then Some 0
      else if c = CHR 0x5C then
        (case cs of
           [] \<Rightarrow> None
         | e # cs' \<Rightarrow> map_option (\<lambda>n. n + 2) (closing_quote cs'))
      else map_option Suc (closing_quote cs))"

function scanstring :: "string \<Rightarrow> string option" where
  "scanstring [] = Some []"
| "scanstring (c # cs) =
     (if c = CHR 0x5C then
        (case cs of
           [] \<Rightarrow> None
         | e # r \<Rightarrow>
             if e = CHR ''u'' then
               (case decode_uXXXX (take 4 r) of
                  None \<Rightarrow> None
                | Some uni \<Rightarrow>
                    if 0xD800 \<le> uni \<and> uni \<le> 0xDBFF \<and> take 2 (drop 4 r) = [CHR 0x5C, CHR ''u''] then
                      (case decode_uXXXX (take 4 (drop 6 r)) of
                         None \<Rightarrow> None
                       | Some uni2 \<Rightarrow>
                           if 0xDC00 \<le> uni2 \<and> uni2 \<le> 0xDFFF then
                             map_option
                               ((@) (utf8_encode (0x10000 + (uni - 0xD800) * 0x400 + (uni2 - 0xDC00))))
                               (scanstring (drop 10 r))
                           else map_option ((@) (utf8_encode uni)) (scanstring (drop 4 r)))
                    else map_option ((@) (utf8_encode uni)) (scanstring (drop 4 r)))
             else
               (case backslash_escape e of
                  None \<Rightarrow> None
                | Some ch \<Rightarrow> map_option ((#) ch) (scanstring r)))
      else if (of_char c :: nat) < 0x20 then None
      else map_option ((#) c) (scanstring cs))"
  by pat_completeness auto
termination
  by (relation "measure length") auto

text \<open>
  A number is \<^verbatim>\<open>-?(0|[1-9][0-9]*)(\.[0-9]+)?([eE][-+]?[0-9]+)?\<close>, and the whole bare word
  must match: an integer part without leading zero, then an optional fraction, then an
  optional exponent.
\<close>

definition number_value :: "string \<Rightarrow> pyval option" where
  "number_value w =
     (let neg = (take 1 w = ''-'');
          w1 = (if neg then drop 1 w else w);
          ipart = takeWhile is_digit w1;
          r1 = dropWhile is_digit w1;
          has_frac = (take 1 r1 = ''.'');
          fpart = (if has_frac then takeWhile is_digit (drop 1 r1) else []);
          r2 = (if has_frac then dropWhile is_digit (drop 1 r1) else r1);
          has_exp = (take 1 r2 = ''e'' \<or> take 1 r2 = ''E'');
          r3 = drop 1 r2;
          eneg = (take 1 r3 = ''-'');
          epart = (if take 1 r3 = ''-'' \<or> take 1 r3 = ''+'' then drop 1 r3 else r3)
      in
      if ipart = [] \<or> (hd ipart = CHR ''0'' \<and> ipart \<noteq> ''0'') then None
      else if has_frac \<and> fpart = [] then None
      else if r2 \<noteq> [] \<and> (\<not> has_exp \<or> epart = [] \<or> \<not> list_all is_digit epart) then None
      else if \<not> has_frac \<and> \<not> has_exp then
        Some (PyInt (if neg then - int (decimal ipart) else int (decimal ipart)))
      else
        (let mant = (of_nat (decimal (ipart @ fpart)) :: rat) / 10 ^ length fpart;
             scaled = (if \<not> has_exp then mant
                       else if eneg then mant / 10 ^ decimal epart
                       else mant * 10 ^ decimal epart)
         in Some (PyFloat (Finite (if neg then - scaled else scaled)))))"

definition bare_value :: "string \<Rightarrow> pyval option" where
  "bare_value w =
     (if w = ''null'' then Some PyNone
      else if w = ''true'' then Some (PyBool True)
      else if w = ''false'' then Some (PyBool False)
      else if w = ''NaN'' then Some (PyFloat NaN)
      else if w = ''Infinity'' then Some (PyFloat PosInf)
      else if w = ''-Infinity'' then Some (PyFloat NegInf)
      else number_value w)"

datatype token =
    TLBrace | TRBrace | TLBracket | TRBracket | TColon | TComma | TScalar pyval

function tokenize :: "string \<Rightarrow> token list option" where
  "tokenize [] = Some []"
| "tokenize (c # cs) =
     (if is_ws c then tokenize cs
      else if c = CHR ''{'' then map_option ((#) TLBrace) (tokenize cs)
      else if c = CHR ''}'' then map_option ((#) TRBrace) (tokenize cs)
      else if c = CHR ''['' then map_option ((#) TLBracket) (tokenize cs)
      else if c = CHR '']'' then map_option ((#) TRBracket) (tokenize cs)
      else if c = CHR '':'' then map_option ((#) TColon) (tokenize cs)
      else if c = CHR '','' then map_option ((#) TComma) (tokenize cs)
      else if c = CHR 0x22 then
        (case closing_quote cs of
           None \<Rightarrow> None
         | Some n \<Rightarrow>
             (case scanstring (take n cs) of
                None \<Rightarrow> None
              | Some s \<Rightarrow> map_option ((#) (TScalar (PyStr s))) (tokenize (drop (Suc n) cs))))
      else if is_bare c then
        (case bare_value (c # takeWhile is_bare cs) of
           None \<Rightarrow> None
         | Some v \<Rightarrow> map_option ((#) (TScalar v)) (tokenize (dropWhile is_bare cs)))
      else None)"
  by pat_completeness auto
termination
  by (relation "measure length") (auto simp: less_Suc_eq_le length_dropWhile_le)

text \<open>
  The tokens are read from left to right against a stack of the containers that are
  open: an array with the items read so far, an object with the pairs read so far, or an
  object whose next key has been read and waits for its value. \<open>expect\<close> says what
  may come next; a token that may not is an error, so is a trailing comma, and so is
  anything after the value is complete.
\<close>

datatype frame =
    FArray "pyval list"
  | FObject "(string \<times> pyval) list"
  | FKey "(string \<times> pyval) list" string

datatype expect =
    EValue | EValueOrClose | EKeyOrClose | EKey | EColon | ECommaOrClose | EDone pyval

fun push_value :: "pyval \<Rightarrow> frame list \<Rightarrow> (frame list \<times> expect) option" where
  "push_value v [] = Some ([], EDone v)"
| "push_value v (FArray items # stack) = Some (FArray (items @ [v]) # stack, ECommaOrClose)"
| "push_value v (FKey pairs k # stack) =
     Some (FObject (AList.update k v pairs) # stack, ECommaOrClose)"
| "push_value v (FObject pairs # stack) = None"

fun open_value :: "token \<Rightarrow> frame list \<Rightarrow> (frame list \<times> expect) option" where
  "open_value (TScalar v) stack = push_value v stack"
| "open_value TLBracket stack = Some (FArray [] # stack, EValueOrClose)"
| "open_value TLBrace stack = Some (FObject [] # stack, EKeyOrClose)"
| "open_value _ stack = None"

fun parse_step :: "frame list \<times> expect \<Rightarrow> token \<Rightarrow> (frame list \<times> expect) option" where
  "parse_step (stack, EValue) t = open_value t stack"
| "parse_step (FArray items # stack, EValueOrClose) TRBracket = push_value (PyList items) stack"
| "parse_step (stack, EValueOrClose) t = open_value t stack"
| "parse_step (FObject pairs # stack, EKeyOrClose) TRBrace = push_value (PyDict pairs) stack"
| "parse_step (FObject pairs # stack, EKeyOrClose) (TScalar (PyStr k)) =
     Some (FKey pairs k # stack, EColon)"
| "parse_step (FObject pairs # stack, EKey) (TScalar (PyStr k)) =
     Some (FKey pairs k # stack, EColon)"
| "parse_step (stack, EColon) TColon = Some (stack, EValue)"
| "parse_step (FArray items # stack, ECommaOrClose) TComma = Some (FArray items # stack, EValue)"
| "parse_step (FArray items # stack, ECommaOrClose) TRBracket = push_value (PyList items) stack"
| "parse_step (FObject pairs # stack, ECommaOrClose) TComma = Some (FObject pairs # stack, EKey)"
| "parse_step (FObject pairs # stack, ECommaOrClose) TRBrace = push_value (PyDict pairs) stack"
| "parse_step _ _ = None"

fun parse_tokens :: "frame list \<times> expect \<Rightarrow> token list \<Rightarrow> pyval option" where
  "parse_tokens (stack, e) [] = (case e of EDone v \<Rightarrow> Some v | _ \<Rightarrow> None)"
| "parse_tokens st (t # ts) =
     (case parse_step st t of None \<Rightarrow> None | Some st' \<Rightarrow> parse_tokens st' ts)"

definition json_loads :: "string \<Rightarrow> exn + pyval" where
  "json_loads s =
     (case tokenize s of
        None \<Rightarrow> Inl JSONDecodeError
      | Some ts \<Rightarrow>
          (case parse_tokens ([], EValue) ts of
             None \<Rightarrow> Inl JSONDecodeError
           | Some obj \<Rightarrow> Inr obj))"

section \<open>The schema, \<^verbatim>\<open>AnalysisResult\<close>\<close>

text \<open>
  The pydantic model of the source: five required fields, typed \<^verbatim>\<open>int\<close>,
  \<^verbatim>\<open>List[str]\<close> (three times) and \<^verbatim>\<open>str\<close>. Each \<^verbatim>\<open>Field(...)\<close> gives a description only:
  no bound on the score, no set of allowed status values, no validator, and the model
  configuration is the default one (values are converted where pydantic's default mode
  converts them, keys that are no field are ignored).
\<close>

record AnalysisResult =
  matching_score :: int
  existing_skills :: "string list"
  missing_skills :: "string list"
  recommended_improvements :: "string list"
  suitability_status :: string

definition is_space :: "char \<Rightarrow> bool" where
  "is_space c = (c = CHR 0x20 \<or> (9 \<le> (of_char c :: nat) \<and> (of_char c :: nat) \<le> 13))"

definition trim :: "string \<Rightarrow> string" where
  "trim s = rev (dropWhile is_space (rev (dropWhile is_space s)))"

text \<open>
  A string given for an \<^verbatim>\<open>int\<close> field: surrounding ASCII whitespace is dropped, then
  an optional sign and decimal digits are read. (Further spellings that some releases of
  the validation library also read as integers, such as digit groups with underscores,
  are refused here; no statement below depends on them.)
\<close>

definition str_as_int :: "string \<Rightarrow> int option" where
  "str_as_int s =
     (let t = trim s;
          neg = (take 1 t = ''-'');
          ds = (if take 1 t = ''-'' \<or> take 1 t = ''+'' then drop 1 t else t)
      in if ds \<noteq> [] \<and> list_all is_digit ds
         then Some (if neg then - int (decimal ds) else int (decimal ds))
         else None)"

text \<open>
  An \<^verbatim>\<open>int\<close> field takes an integer as it is, of any size; a boolean as 0 or 1; a
  string of digits; a float without fractional part. A \<^verbatim>\<open>str\<close> field takes a string and
  nothing else. A \<^verbatim>\<open>List[str]\<close> field takes a list whose items are all strings; every
  item that is not is reported with its index.
\<close>

fun validate_int :: "pyval \<Rightarrow> verror_type + int" where
  "validate_int (PyInt n) = Inr n"
| "validate_int (PyBool b) = Inr (if b then 1 else 0)"
| "validate_int (PyStr s) =
     (case str_as_int s of None \<Rightarrow> Inl IntParsing | Some n \<Rightarrow> Inr n)"
| "validate_int (PyFloat (Finite q)) =
     (if of_int \<lfloor>q\<rfloor> = q then Inr \<lfloor>q\<rfloor> else Inl IntFromFloat)"
| "validate_int (PyFloat _) = Inl FiniteNumber"
| "validate_int _ = Inl IntType"

fun validate_str :: "pyval \<Rightarrow> verror_type + string" where
  "validate_str (PyStr s) = Inr s"
| "validate_str _ = Inl StringType"

fun validate_items ::
  "string \<Rightarrow> nat \<Rightarrow> pyval list \<Rightarrow> (loc \<times> verror_type) list \<times> string list" where
  "validate_items name i [] = ([], [])"
| "validate_items name i (v # vs) =
     (let (errors, items) = validate_items name (Suc i) vs in
      case validate_str v of
        Inl err \<Rightarrow> ((Item name i, err) # errors, items)
      | Inr s \<Rightarrow> (errors, s # items))"

definition int_field ::
  "string \<Rightarrow> (string \<times> pyval) list \<Rightarrow> (loc \<times> verror_type) list + int" where
  "int_field name kwargs =
     (case map_of kwargs name of
        None \<Rightarrow> Inl [(Field name, Missing)]
      | Some v \<Rightarrow>
          (case validate_int v of
             Inl err \<Rightarrow> Inl [(Field name, err)]
           | Inr n \<Rightarrow> Inr n))"

definition str_field ::
  "string \<Rightarrow> (string \<times> pyval) list \<Rightarrow> (loc \<times> verror_type) list + string" where
  "str_field name kwargs =
     (case map_of kwargs name of
        None \<Rightarrow> Inl [(Field name, Missing)]
      | Some v \<Rightarrow>
          (case validate_str v of
             Inl err \<Rightarrow> Inl [(Field name, err)]
           | Inr s \<Rightarrow> Inr s))"

definition list_str_field ::
  "string \<Rightarrow> (string \<times> pyval) list \<Rightarrow> (loc \<times> verror_type) list + string list" where
  "list_str_field name kwargs =
     (case map_of kwargs name of
        None \<Rightarrow> Inl [(Field name, Missing)]
      | Some (PyList vs) \<Rightarrow>
          (case validate_items name 0 vs of
             ([], items) \<Rightarrow> Inr items
           | (errors, items) \<Rightarrow> Inl errors)
      | Some _ \<Rightarrow> Inl [(Field name, ListType)])"

definition field_errors :: "'e list + 'a \<Rightarrow> 'e list" where
  "field_errors r = (case r of Inl errors \<Rightarrow> errors | Inr _ \<Rightarrow> [])"

text \<open>
  \<^verbatim>\<open>AnalysisResult(**data)\<close>: unpacking anything but a dictionary raises \<^verbatim>\<open>TypeError\<close>;
  otherwise every field is validated and the errors of all fields are raised together as
  one \<^verbatim>\<open>ValidationError\<close>. Keys of \<open>data\<close> that name no field are never looked at.
\<close>

definition new_AnalysisResult :: "pyval \<Rightarrow> exn + AnalysisResult" where
  "new_AnalysisResult data =
     (case data of
        PyDict kwargs \<Rightarrow>
          (let f1 = int_field ''matching_score'' kwargs;
               f2 = list_str_field ''existing_skills'' kwargs;
               f3 = list_str_field ''missing_skills'' kwargs;
               f4 = list_str_field ''recommended_improvements'' kwargs;
               f5 = str_field ''suitability_status'' kwargs
           in case (f1, f2, f3, f4, f5) of
                (Inr score, Inr existing, Inr missing, Inr improvements, Inr status) \<Rightarrow>
                  Inr \<lparr>matching_score = score, existing_skills = existing,
                       missing_skills = missing, recommended_improvements = improvements,
                       suitability_status = status\<rparr>
              | _ \<Rightarrow>
                  Inl (ValidationError
                        (field_errors f1 @ field_errors f2 @ field_errors f3
                           @ field_errors f4 @ field_errors f5)))
      | _ \<Rightarrow> Inl (TypeError ''argument after ** must be a mapping''))"

definition model_dump :: "AnalysisResult \<Rightarrow> (string \<times> pyval) list" where
  "model_dump r =
     [(''matching_score'', PyInt (matching_score r)),
      (''existing_skills'', PyList (map PyStr (existing_skills r))),
      (''missing_skills'', PyList (map PyStr (missing_skills r))),
      (''recommended_improvements'', PyList (map PyStr (recommended_improvements r))),
      (''suitability_status'', PyStr (suitability_status r))]"

section \<open>Document text extraction\<close>

text \<open>
  An uploaded file is seen through the libraries that open it: \<open>file_type\<close> is the MIME type
  the upload widget reports, \<open>pdf_reader\<close> is what \<^verbatim>\<open>pypdf.PdfReader(file).pages\<close> gives
  (an exception when the bytes are no PDF, otherwise for each page the outcome of
  \<^verbatim>\<open>page.extract_text()\<close>), and \<open>docx_document\<close> is what
  \<^verbatim>\<open>docx.Document(file).paragraphs\<close> gives (for each paragraph its \<^verbatim>\<open>text\<close>).
\<close>

record uploaded_file =
  file_type :: string
  pdf_reader :: "exn + (exn + string) list"
  docx_document :: "exn + string list"

text \<open>
  \<^verbatim>\<open>text = ""; for page in pdf.pages: text += page.extract_text()\<close>: the loop, with the
  text read so far as the accumulator. A page whose extraction raises ends the loop.
\<close>

fun pdf_pages_loop :: "string \<Rightarrow> (exn + string) list \<Rightarrow> exn + string" where
  "pdf_pages_loop text [] = Inr text"
| "pdf_pages_loop text (page # pages) =
     (case page of
        Inl e \<Rightarrow> Inl e
      | Inr page_text \<Rightarrow> pdf_pages_loop (text @ page_text) pages)"

definition extract_text_from_pdf :: "uploaded_file \<Rightarrow> exn + string" where
  "extract_text_from_pdf file =
     (case pdf_reader file of
        Inl e \<Rightarrow> Inl e
      | Inr pages \<Rightarrow> pdf_pages_loop [] pages)"

text \<open>
  \<^verbatim>\<open>text = ""; for para in doc.paragraphs: text += para.text + "\n"\<close>.
\<close>

fun docx_paragraphs_loop :: "string \<Rightarrow> string list \<Rightarrow> string" where
  "docx_paragraphs_loop text [] = text"
| "docx_paragraphs_loop text (para # paras) =
     docx_paragraphs_loop (text @ (para @ [CHR 0x0A])) paras"

definition extract_text_from_docx :: "uploaded_file \<Rightarrow> exn + string" where
  "extract_text_from_docx file =
     (case docx_document file of
        Inl e \<Rightarrow> Inl e
      | Inr paras \<Rightarrow> Inr (docx_paragraphs_loop [] paras))"

text \<open>
  Reading a text back as newline-terminated lines; \<open>cur\<close> is the line being read. Used
  only to state that the paragraphs can be recovered from the extracted text.
\<close>

fun terminated_lines :: "string \<Rightarrow> string \<Rightarrow> string list" where
  "terminated_lines cur [] = (if cur = [] then [] else [cur])"
| "terminated_lines cur (c # cs) =
     (if c = CHR 0x0A then cur # terminated_lines [] cs
      else terminated_lines (cur @ [c]) cs)"

section \<open>The analyzer, \<^verbatim>\<open>get_ollama_analysis\<close>\<close>

text \<open>
  What the user sees and what leaves the process is a trace of events: the call to the
  model server, and the Streamlit widgets \<^verbatim>\<open>st.error\<close>, \<^verbatim>\<open>st.warning\<close>, \<^verbatim>\<open>st.spinner\<close>.
  \<open>StErrorExn prefix e\<close> is \<^verbatim>\<open>st.error(f"{prefix}{e}")\<close>. \<open>ShowResults\<close> stands for
  the widgets that render a result (they only read it).
\<close>

datatype event =
    OllamaChat string "(string \<times> string) list" string
  | StError string
  | StErrorExn string exn
  | StWarning string
  | StSpinner string
  | ShowResults "(string \<times> pyval) list"

definition MODEL_NAME :: string where
  "MODEL_NAME = ''llama3.1:8b''"

definition newline :: string where
  "newline = [CHR 0x0A]"

definition system_prompt :: string where
  \<open>system_prompt =
     concat
       [newline,
        ''    You are a strict, evidence-based AI Career Coach and ATS (Applicant Tracking System) specialist. '',
        newline,
        ''    Your goal is to compare a candidate's resume against a job description (JD) based ONLY on the provided text.'',
        newline,
        newline,
        ''    CRITICAL RULES:'',
        newline,
        ''    1. **NO HALLUCINATIONS:** Do not assume the candidate has a skill unless it is explicitly stated in the Resume text. Even if a candidate is a "Senior Developer," do not assume they know "Docker" unless the word "Docker" appears in the resume.'',
        newline,
        ''    2. **Existing Skills:** This list must ONLY contain technical skills and keywords that appear in BOTH the JD and the Resume.'',
        newline,
        ''    3. **Missing Skills:** This list must contain critical skills found in the JD that are completely ABSENT from the Resume.'',
        newline,
        ''    4. **Synonyms:** You may recognize standard synonyms (e.g., "React" = "React.js", "AWS" = "Amazon Web Services"), but if the concept is missing, mark it as missing.'',
        newline,
        ''    5. **Output Format:** You must output ONLY valid JSON.'',
        newline,
        ''    '']\<close>

definition user_prompt :: "string \<Rightarrow> string \<Rightarrow> string" where
  \<open>user_prompt resume_text jd_text =
     concat
       [newline,
        ''    Please perform a deep gap analysis on the following data:'',
        newline,
        ''    '',
        newline,
        ''    **Job Description:**'',
        newline,
        ''    '',
        jd_text,
        newline,
        newline,
        ''    **Resume:**'',
        newline,
        ''    '',
        resume_text,
        newline,
        newline,
        ''    Return the analysis in the following JSON format:'',
        newline,
        ''    {'',
        newline,
        ''        "matching_score": <integer>,'',
        newline,
        ''        "existing_skills": [<list of strings>],'',
        newline,
        ''        "missing_skills": [<list of strings>],'',
        newline,
        ''        "recommended_improvements": [<list of strings>],'',
        newline,
        ''        "suitability_status": "<One of: Highly Recommended, Qualified, Potential Match, Not Qualified>"'',
        newline,
        ''    }'',
        newline,
        ''    '']\<close>

definition chat_messages :: "string \<Rightarrow> string \<Rightarrow> (string \<times> string) list" where
  "chat_messages resume_text jd_text =
     [(''system'', system_prompt), (''user'', user_prompt resume_text jd_text)]"

text \<open>
  The model server is the parameter \<open>ollama_chat\<close>: given the model name, the messages
  and the format, it yields the text \<^verbatim>\<open>response['message']['content']\<close>, or the exception
  that the call or the reading of the reply raised.

  The function returns the dictionary or \<^verbatim>\<open>None\<close>, and its trace. The three
  \<^verbatim>\<open>except\<close> clauses are tried in the order of the source: \<^verbatim>\<open>ollama.ResponseError\<close>,
  \<^verbatim>\<open>json.JSONDecodeError\<close>, then every other \<^verbatim>\<open>Exception\<close>.
\<close>

definition get_ollama_analysis ::
  "(string \<Rightarrow> (string \<times> string) list \<Rightarrow> string \<Rightarrow> exn + string) \<Rightarrow> string \<Rightarrow> string
     \<Rightarrow> (string \<times> pyval) list option \<times> event list" where
  "get_ollama_analysis ollama_chat resume_text jd_text =
     (let messages = chat_messages resume_text jd_text;
          call = OllamaChat MODEL_NAME messages ''json'';
          attempt =
            (case ollama_chat MODEL_NAME messages ''json'' of
               Inl e \<Rightarrow> Inl e
             | Inr content \<Rightarrow>
                 (case json_loads content of
                    Inl e \<Rightarrow> Inl e
                  | Inr data \<Rightarrow>
                      (case new_AnalysisResult data of
                         Inl e \<Rightarrow> Inl e
                       | Inr validated_data \<Rightarrow> Inr (model_dump validated_data))))
      in case attempt of
           Inr result \<Rightarrow> (Some result, [call])
         | Inl (ResponseError m) \<Rightarrow>
             (None, [call, StErrorExn ''Ollama API Error: '' (ResponseError m)])
         | Inl JSONDecodeError \<Rightarrow>
             (None, [call,
                StError ''Failed to parse LLM response. The model did not return valid JSON.''])
         | Inl e \<Rightarrow>
             (None, [call, StErrorExn ''An unexpected error occurred: '' e]))"

text \<open>A model server that answers every request with the same text.\<close>

definition fixed_reply ::
  "string \<Rightarrow> string \<Rightarrow> (string \<times> string) list \<Rightarrow> string \<Rightarrow> exn + string" where
  "fixed_reply content model messages format = Inr content"

section \<open>The page, \<^verbatim>\<open>main\<close>\<close>

text \<open>
  One run of the page script, from the values of its three inputs: the job description
  typed in, the file uploaded (if any) and whether the button was pressed. The resume
  text starts empty; it is extracted from a PDF or a DOCX upload, and left empty when the
  extractor raises (the error is shown) or the upload is of another type.
\<close>

definition read_resume :: "uploaded_file option \<Rightarrow> string \<times> event list" where
  "read_resume uploaded =
     (case uploaded of
        None \<Rightarrow> ([], [])
      | Some file \<Rightarrow>
          (let extracted =
                 (if file_type file = ''application/pdf'' then extract_text_from_pdf file
                  else if file_type file =
                      ''application/vnd.openxmlformats-officedocument.wordprocessingml.document''
                    then extract_text_from_docx file
                  else Inr [])
           in case extracted of
                Inl e \<Rightarrow> ([], [StErrorExn ''Error extracting text: '' e])
              | Inr resume_text \<Rightarrow> (resume_text, [])))"

definition main ::
  "(string \<Rightarrow> (string \<times> string) list \<Rightarrow> string \<Rightarrow> exn + string) \<Rightarrow> string
     \<Rightarrow> uploaded_file option \<Rightarrow> bool \<Rightarrow> event list" where
  "main ollama_chat jd_input uploaded analyze_btn =
     (let (resume_text, shown) = read_resume uploaded in
      if analyze_btn then
        (if jd_input = [] \<or> resume_text = [] then
           shown @ [StWarning ''Please provide both the Job Description and the Resume.'']
         else
           (let (result, trace) = get_ollama_analysis ollama_chat resume_text jd_input in
            shown @ [StSpinner ''Consulting the AI agent...''] @ trace @
              (case result of
                 None \<Rightarrow> []
               | Some r \<Rightarrow> if r \<noteq> [] then [ShowResults r] else [])))
      else shown)"

section \<open>Names used in the statements, and sample replies\<close>

text \<open>
  The five field names of \<open>AnalysisResult\<close>, in the order of the class, and the shapes
  of values the statements speak of: an error message on the page, a string, a list of
  strings, and the values that an \<^verbatim>\<open>int\<close> field never converts.
\<close>

definition field_names :: "string list" where
  "field_names =
     [''matching_score'', ''existing_skills'', ''missing_skills'',
      ''recommended_improvements'', ''suitability_status'']"

fun is_st_error :: "event \<Rightarrow> bool" where
  "is_st_error (StError msg) = True"
| "is_st_error (StErrorExn prefix e) = True"
| "is_st_error _ = False"




text \<open>
  The texts of the end-to-end scenarios of the specification, and replies of the model
  used as concrete inputs: scenario A, scenario C (score 150), and replies with a negative
  score, with a status outside the list, with an empty status, with the score as a JSON
  string, with a field missing, cut off in the middle, in prose, and with two extra keys.
\<close>

definition scenario_resume :: string where
  "scenario_resume = ''Experienced in Python, Docker, and AWS.''"

definition scenario_jd :: string where
  "scenario_jd = ''Looking for a Python developer with Kubernetes experience.''"

definition scenario_A_response :: string where
  \<open>scenario_A_response = ''{"matching_score": 60, "existing_skills": ["Python"], "missing_skills": ["Kubernetes"], "recommended_improvements": ["Add Kubernetes experience"], "suitability_status": "Potential Match"}''\<close>






definition missing_field_response :: string where
  \<open>missing_field_response = ''{"matching_score": 60, "existing_skills": ["Python"], "missing_skills": ["Kubernetes"], "suitability_status": "Potential Match"}''\<close>

definition truncated_response :: string where
  \<open>truncated_response = ''{"matching_score": 60, "existing_skills": ["Pyth''\<close>



text \<open>Two uploads: a one-page PDF, and a file that the PDF reader refuses.\<close>

definition scenario_pdf :: uploaded_file where
  "scenario_pdf =
     \<lparr>file_type = ''application/pdf'',
      pdf_reader = Inr [Inr ''Experienced in Python, Docker, and AWS.''],
      docx_document = Inl (OtherException ''not a DOCX'')\<rparr>"

definition broken_pdf :: uploaded_file where
  "broken_pdf =
     \<lparr>file_type = ''application/pdf'',
      pdf_reader = Inl (OtherException ''EOF marker not found''),
      docx_document = Inl (OtherException ''not a DOCX'')\<rparr>"

text \<open>A model server whose call raises.\<close>

definition failed_call ::
  "exn \<Rightarrow> string \<Rightarrow> (string \<times> string) list \<Rightarrow> string \<Rightarrow> exn + string" where
  "failed_call e model messages format = Inl e"

section \<open>Properties of the extractors\<close>

lemma docx_paragraphs_loop_concat:
  "docx_paragraphs_loop acc paras = acc @ concat (map (\<lambda>p. p @ [CHR 0x0A]) paras)"
  by (induction paras arbitrary: acc) simp_all

lemma pdf_pages_loop_concat:
  "pdf_pages_loop acc (map Inr texts) = Inr (acc @ concat texts)"
  by (induction texts arbitrary: acc) simp_all

lemma concat_filter_nonempty: "concat (filter (\<lambda>t. t \<noteq> []) texts) = concat texts"
  by (induction texts) simp_all

lemma terminated_lines_one:
  "CHR 0x0A \<notin> set p \<Longrightarrow>
   terminated_lines cur (p @ CHR 0x0A # rest) = (cur @ p) # terminated_lines [] rest"
  by (induction p arbitrary: cur) auto

lemma terminated_lines_paragraphs:
  "\<forall>p \<in> set paras. CHR 0x0A \<notin> set p \<Longrightarrow>
   terminated_lines [] (concat (map (\<lambda>p. p @ [CHR 0x0A]) paras)) = paras"
  by (induction paras) (simp_all add: terminated_lines_one)

lemma count_newlines_paragraphs:
  "count_list (concat (map (\<lambda>p. p @ [CHR 0x0A]) paras)) (CHR 0x0A) =
   length paras + sum_list (map (\<lambda>p. count_list p (CHR 0x0A)) paras)"
  by (induction paras) simp_all

text \<open>
  C8. For a file that opens as a word-processing document, \<open>extract_text_from_docx\<close>
  returns the paragraphs' texts in document order, each followed by exactly one newline:
  the result is the concatenation of \<open>text + "\n"\<close> over the paragraphs, it has one
  newline per paragraph beyond those the paragraph texts contain themselves, and when no
  paragraph text contains a newline, reading the result back line by line gives the
  paragraphs again, in order.
\<close>

theorem extract_text_from_docx_paragraph_order:
  assumes "docx_document file = Inr paras"
  shows "\<exists>text. extract_text_from_docx file = Inr text
           \<and> text = concat (map (\<lambda>p. p @ [CHR 0x0A]) paras)
           \<and> count_list text (CHR 0x0A) =
               length paras + sum_list (map (\<lambda>p. count_list p (CHR 0x0A)) paras)
           \<and> ((\<forall>p \<in> set paras. CHR 0x0A \<notin> set p) \<longrightarrow> terminated_lines [] text = paras)"
  using assms
  by (simp add: extract_text_from_docx_def docx_paragraphs_loop_concat
      count_newlines_paragraphs terminated_lines_paragraphs)

theorem extract_text_from_docx_paragraph_order_witness:
  "extract_text_from_docx
     \<lparr>file_type = ''application/vnd.openxmlformats-officedocument.wordprocessingml.document'',
      pdf_reader = Inl (OtherException ''not a PDF''),
      docx_document = Inr [''Jane Doe'', '''', ''Python, Docker'']\<rparr>
   = Inr (''Jane Doe'' @ [CHR 0x0A] @ [CHR 0x0A] @ ''Python, Docker'' @ [CHR 0x0A])
   \<and> terminated_lines [] (''Jane Doe'' @ [CHR 0x0A] @ [CHR 0x0A] @ ''Python, Docker'' @ [CHR 0x0A])
       = [''Jane Doe'', '''', ''Python, Docker'']"
  using extract_text_from_docx_paragraph_order
    [of "\<lparr>file_type = ''application/vnd.openxmlformats-officedocument.wordprocessingml.document'',
          pdf_reader = Inl (OtherException ''not a PDF''),
          docx_document = Inr [''Jane Doe'', '''', ''Python, Docker'']\<rparr>"
        "[''Jane Doe'', '''', ''Python, Docker'']"]
  by simp

text \<open>
  C9. For a file that opens as a PDF whose N pages all yield a text, \<open>extract_text_from_pdf\<close>
  returns the concatenation of the page texts in page order; a page with no text
  contributes the empty string and no error (dropping such pages leaves the result as it
  is); and the result depends on nothing but the document read, so extracting again from
  a file that reads as the same document gives the same text.
\<close>

theorem extract_text_from_pdf_page_order:
  assumes "pdf_reader file = Inr (map Inr texts)"
  shows "extract_text_from_pdf file = Inr (concat texts)
         \<and> extract_text_from_pdf file = Inr (concat (filter (\<lambda>t. t \<noteq> []) texts))
         \<and> (\<forall>file'. pdf_reader file' = pdf_reader file \<longrightarrow>
               extract_text_from_pdf file' = extract_text_from_pdf file)"
  using assms
  by (simp add: extract_text_from_pdf_def pdf_pages_loop_concat concat_filter_nonempty)

theorem extract_text_from_pdf_page_order_witness:
  "extract_text_from_pdf
     \<lparr>file_type = ''application/pdf'',
      pdf_reader = Inr [Inr ''Experienced in '', Inr '''', Inr ''Python''],
      docx_document = Inl (OtherException ''not a DOCX'')\<rparr>
   = Inr ''Experienced in Python''"
  using extract_text_from_pdf_page_order
    [of "\<lparr>file_type = ''application/pdf'',
          pdf_reader = Inr [Inr ''Experienced in '', Inr '''', Inr ''Python''],
          docx_document = Inl (OtherException ''not a DOCX'')\<rparr>"
        "[''Experienced in '', '''', ''Python'']"]
  by simp

section \<open>Properties of the schema and of the analyzer\<close>

lemma validate_items_strs: "validate_items name i (map PyStr xs) = ([], xs)"
  by (induction xs arbitrary: i) simp_all


lemma list_str_field_ok:
  "map_of kwargs name = Some (PyList (map PyStr xs)) \<Longrightarrow> list_str_field name kwargs = Inr xs"
  by (simp add: list_str_field_def validate_items_strs)




lemma int_field_missing: "map_of kwargs name = None \<Longrightarrow> \<exists>errors. int_field name kwargs = Inl errors"
  by (simp add: int_field_def)

lemma str_field_missing: "map_of kwargs name = None \<Longrightarrow> \<exists>errors. str_field name kwargs = Inl errors"
  by (simp add: str_field_def)

lemma list_str_field_missing:
  "map_of kwargs name = None \<Longrightarrow> \<exists>errors. list_str_field name kwargs = Inl errors"
  by (simp add: list_str_field_def)






lemma loads_A: "json_loads scenario_A_response = Inr (PyDict
    [(''matching_score'', PyInt 60),
     (''existing_skills'', PyList [PyStr ''Python'']),
     (''missing_skills'', PyList [PyStr ''Kubernetes'']),
     (''recommended_improvements'', PyList [PyStr ''Add Kubernetes experience'']),
     (''suitability_status'', PyStr ''Potential Match'')])"
  by code_simp






lemma loads_missing: "json_loads missing_field_response = Inr (PyDict
    [(''matching_score'', PyInt 60),
     (''existing_skills'', PyList [PyStr ''Python'']),
     (''missing_skills'', PyList [PyStr ''Kubernetes'']),
     (''suitability_status'', PyStr ''Potential Match'')])"
  by code_simp

lemma loads_truncated: "json_loads truncated_response = Inl JSONDecodeError"
  by code_simp




lemma new_AnalysisResult_valid:
  assumes "map_of kwargs ''matching_score'' = Some v" and "validate_int v = Inr n"
    and "map_of kwargs ''existing_skills'' = Some (PyList (map PyStr existing))"
    and "map_of kwargs ''missing_skills'' = Some (PyList (map PyStr missing))"
    and "map_of kwargs ''recommended_improvements'' = Some (PyList (map PyStr improvements))"
    and "map_of kwargs ''suitability_status'' = Some (PyStr status)"
  shows "new_AnalysisResult (PyDict kwargs) =
           Inr \<lparr>matching_score = n, existing_skills = existing, missing_skills = missing,
                recommended_improvements = improvements, suitability_status = status\<rparr>"
  using assms
  by (simp add: new_AnalysisResult_def int_field_def str_field_def list_str_field_ok)

lemma analysis_conforming:
  assumes "ollama_chat MODEL_NAME (chat_messages resume_text jd_text) ''json'' = Inr content"
    and "json_loads content = Inr (PyDict kwargs)"
    and "map_of kwargs ''matching_score'' = Some v" and "validate_int v = Inr n"
    and "map_of kwargs ''existing_skills'' = Some (PyList (map PyStr existing))"
    and "map_of kwargs ''missing_skills'' = Some (PyList (map PyStr missing))"
    and "map_of kwargs ''recommended_improvements'' = Some (PyList (map PyStr improvements))"
    and "map_of kwargs ''suitability_status'' = Some (PyStr status)"
  shows "fst (get_ollama_analysis ollama_chat resume_text jd_text) =
           Some [(''matching_score'', PyInt n),
                 (''existing_skills'', PyList (map PyStr existing)),
                 (''missing_skills'', PyList (map PyStr missing)),
                 (''recommended_improvements'', PyList (map PyStr improvements)),
                 (''suitability_status'', PyStr status)]"
  using assms(1,2) new_AnalysisResult_valid [OF assms(3-8)]
  by (simp add: get_ollama_analysis_def model_dump_def)

subsection \<open>The score's range and the status values\<close>







subsection \<open>Failures\<close>

text \<open>
  C3. Every failure of \<open>get_ollama_analysis\<close> is turned into \<^verbatim>\<open>None\<close> and one error
  message: whether the call to the model server raises, or the reply is not JSON, or the
  decoded value does not validate, the result is \<^verbatim>\<open>None\<close> and the trace is the call
  followed by exactly one \<^verbatim>\<open>st.error\<close>. No exception is left over: the function has a
  value for every outcome of its three steps. And a result is returned only when all
  three steps succeeded; it is then the dump of the validated record, never a part of
  one.
\<close>

theorem analysis_failure_gives_no_result:
  "let reply = ollama_chat MODEL_NAME (chat_messages resume_text jd_text) ''json'';
       call = OllamaChat MODEL_NAME (chat_messages resume_text jd_text) ''json'';
       (result, trace) = get_ollama_analysis ollama_chat resume_text jd_text
   in ((\<exists>e. reply = Inl e)
         \<or> (\<exists>content e. reply = Inr content \<and> json_loads content = Inl e)
         \<or> (\<exists>content data e. reply = Inr content \<and> json_loads content = Inr data
               \<and> new_AnalysisResult data = Inl e)
       \<longrightarrow> result = None \<and> (\<exists>msg. is_st_error msg \<and> trace = [call, msg]))
    \<and> (\<forall>r. result = Some r \<longrightarrow>
          (\<exists>content data validated. reply = Inr content \<and> json_loads content = Inr data
             \<and> new_AnalysisResult data = Inr validated \<and> r = model_dump validated
             \<and> trace = [call]))"
  by (auto simp: get_ollama_analysis_def Let_def split: sum.splits exn.splits)

lemma new_missing: "\<exists>errors. new_AnalysisResult (PyDict
    [(''matching_score'', PyInt 60),
     (''existing_skills'', PyList [PyStr ''Python'']),
     (''missing_skills'', PyList [PyStr ''Kubernetes'']),
     (''suitability_status'', PyStr ''Potential Match'')]) = Inl (ValidationError errors)"
  by (rule exI, code_simp)

theorem analysis_failure_gives_no_result_witness:
  "fst (get_ollama_analysis (failed_call (ResponseError ''connection refused''))
          scenario_resume scenario_jd) = None
   \<and> fst (get_ollama_analysis (fixed_reply truncated_response) scenario_resume scenario_jd) = None
   \<and> fst (get_ollama_analysis (fixed_reply missing_field_response) scenario_resume scenario_jd)
       = None"
  using analysis_failure_gives_no_result
      [of "failed_call (ResponseError ''connection refused'')" scenario_resume scenario_jd]
    analysis_failure_gives_no_result
      [of "fixed_reply truncated_response" scenario_resume scenario_jd]
    analysis_failure_gives_no_result
      [of "fixed_reply missing_field_response" scenario_resume scenario_jd]
    loads_truncated loads_missing new_missing
  by (auto simp: failed_call_def fixed_reply_def Let_def split: prod.splits)




lemma field_names_cases:
  "name \<in> set field_names \<Longrightarrow>
   name = ''matching_score'' \<or> name = ''existing_skills'' \<or> name = ''missing_skills''
     \<or> name = ''recommended_improvements'' \<or> name = ''suitability_status''"
  by (simp add: field_names_def)







subsection \<open>Success\<close>




lemma five_pairs:
  assumes "map fst kwargs = [a, b, c, d, e]"
  shows "\<exists>v1 v2 v3 v4 v5. kwargs = [(a, v1), (b, v2), (c, v3), (d, v4), (e, v5)]"
proof -
  from assms obtain p1 p2 p3 p4 p5 where "kwargs = [p1, p2, p3, p4, p5]"
    by (auto simp: map_eq_Cons_conv)
  with assms show ?thesis
    by (cases p1, cases p2, cases p3, cases p4, cases p5) simp
qed

lemma map_of_five_fields:
  assumes "map_of kwargs ''matching_score'' = Some v1"
    and "map_of kwargs ''existing_skills'' = Some v2"
    and "map_of kwargs ''missing_skills'' = Some v3"
    and "map_of kwargs ''recommended_improvements'' = Some v4"
    and "map_of kwargs ''suitability_status'' = Some v5"
    and "set (map fst kwargs) = set field_names"
  shows "map_of [(''matching_score'', v1), (''existing_skills'', v2), (''missing_skills'', v3),
                 (''recommended_improvements'', v4), (''suitability_status'', v5)]
         = map_of kwargs"
proof
  fix k :: string
  show "map_of [(''matching_score'', v1), (''existing_skills'', v2), (''missing_skills'', v3),
                 (''recommended_improvements'', v4), (''suitability_status'', v5)] k
         = map_of kwargs k"
  proof (cases "k \<in> set field_names")
    case True
    from field_names_cases [OF this] show ?thesis
      using assms(1-5) by (elim disjE) simp_all
  next
    case False
    then have "k \<notin> fst ` set kwargs"
      using assms(6) by simp
    then have "map_of kwargs k = None"
      by (simp add: map_of_eq_None_iff)
    with False show ?thesis
      by (simp add: field_names_def)
  qed
qed

lemma five_fields_in_order:
  assumes "map_of kwargs ''matching_score'' = Some v1"
    and "map_of kwargs ''existing_skills'' = Some v2"
    and "map_of kwargs ''missing_skills'' = Some v3"
    and "map_of kwargs ''recommended_improvements'' = Some v4"
    and "map_of kwargs ''suitability_status'' = Some v5"
    and "map fst kwargs = field_names"
  shows "[(''matching_score'', v1), (''existing_skills'', v2), (''missing_skills'', v3),
          (''recommended_improvements'', v4), (''suitability_status'', v5)] = kwargs"
proof -
  from assms(6) have "\<exists>w1 w2 w3 w4 w5.
      kwargs = [(''matching_score'', w1), (''existing_skills'', w2), (''missing_skills'', w3),
                (''recommended_improvements'', w4), (''suitability_status'', w5)]"
    unfolding field_names_def by (rule five_pairs)
  then obtain w1 w2 w3 w4 w5 where
    "kwargs = [(''matching_score'', w1), (''existing_skills'', w2), (''missing_skills'', w3),
               (''recommended_improvements'', w4), (''suitability_status'', w5)]"
    by (elim exE)
  with assms(1-5) show ?thesis by simp
qed

text \<open>
  C6. A reply that is valid JSON and conforms to the schema is returned unchanged: when
  the decoded object has exactly the five keys of the schema, an integer score, lists of
  strings and a string status, \<open>get_ollama_analysis\<close> returns a dictionary equal to it
  (the same value under every key, and the very same list of pairs when the keys come in
  the order of the schema). Scenario A of the specification is the witness.
\<close>

theorem conforming_reply_returned_unchanged:
  assumes "ollama_chat MODEL_NAME (chat_messages resume_text jd_text) ''json'' = Inr content"
    and "json_loads content = Inr (PyDict kwargs)"
    and "set (map fst kwargs) = set field_names"
    and "map_of kwargs ''matching_score'' = Some (PyInt n)"
    and "map_of kwargs ''existing_skills'' = Some (PyList (map PyStr existing))"
    and "map_of kwargs ''missing_skills'' = Some (PyList (map PyStr missing))"
    and "map_of kwargs ''recommended_improvements'' = Some (PyList (map PyStr improvements))"
    and "map_of kwargs ''suitability_status'' = Some (PyStr status)"
  shows "\<exists>result. fst (get_ollama_analysis ollama_chat resume_text jd_text) = Some result
           \<and> map_of result = map_of kwargs
           \<and> (map fst kwargs = field_names \<longrightarrow> result = kwargs)"
proof (intro exI conjI impI)
  show "fst (get_ollama_analysis ollama_chat resume_text jd_text) =
          Some [(''matching_score'', PyInt n),
                (''existing_skills'', PyList (map PyStr existing)),
                (''missing_skills'', PyList (map PyStr missing)),
                (''recommended_improvements'', PyList (map PyStr improvements)),
                (''suitability_status'', PyStr status)]"
    using assms(1,2,4-8)
    by (intro analysis_conforming [where v = "PyInt n" and content = content and kwargs = kwargs])
      simp_all
  show "map_of [(''matching_score'', PyInt n),
                (''existing_skills'', PyList (map PyStr existing)),
                (''missing_skills'', PyList (map PyStr missing)),
                (''recommended_improvements'', PyList (map PyStr improvements)),
                (''suitability_status'', PyStr status)] = map_of kwargs"
    using assms(4-8,3) by (rule map_of_five_fields)
  show "[(''matching_score'', PyInt n),
         (''existing_skills'', PyList (map PyStr existing)),
         (''missing_skills'', PyList (map PyStr missing)),
         (''recommended_improvements'', PyList (map PyStr improvements)),
         (''suitability_status'', PyStr status)] = kwargs"
    if "map fst kwargs = field_names"
    using assms(4-8) that by (rule five_fields_in_order)
qed

theorem conforming_reply_returned_unchanged_witness:
  "json_loads scenario_A_response =
     Inr (PyDict
       [(''matching_score'', PyInt 60),
        (''existing_skills'', PyList [PyStr ''Python'']),
        (''missing_skills'', PyList [PyStr ''Kubernetes'']),
        (''recommended_improvements'', PyList [PyStr ''Add Kubernetes experience'']),
        (''suitability_status'', PyStr ''Potential Match'')])
   \<and> fst (get_ollama_analysis (fixed_reply scenario_A_response) scenario_resume scenario_jd) =
     Some [(''matching_score'', PyInt 60),
           (''existing_skills'', PyList [PyStr ''Python'']),
           (''missing_skills'', PyList [PyStr ''Kubernetes'']),
           (''recommended_improvements'', PyList [PyStr ''Add Kubernetes experience'']),
           (''suitability_status'', PyStr ''Potential Match'')]"
proof -
  have "\<exists>result.
      fst (get_ollama_analysis (fixed_reply scenario_A_response) scenario_resume scenario_jd)
        = Some result
      \<and> result = [(''matching_score'', PyInt 60),
           (''existing_skills'', PyList [PyStr ''Python'']),
           (''missing_skills'', PyList [PyStr ''Kubernetes'']),
           (''recommended_improvements'', PyList [PyStr ''Add Kubernetes experience'']),
           (''suitability_status'', PyStr ''Potential Match'')]"
    using conforming_reply_returned_unchanged
      [where ollama_chat = "fixed_reply scenario_A_response" and content = scenario_A_response
         and resume_text = scenario_resume and jd_text = scenario_jd
         and n = 60 and existing = "[''Python'']" and missing = "[''Kubernetes'']"
         and improvements = "[''Add Kubernetes experience'']"
         and status = "''Potential Match''", OF _ loads_A]
    by (simp add: fixed_reply_def field_names_def)
  then show ?thesis
    using loads_A by (elim exE conjE) simp
qed



subsection \<open>The guard of the page\<close>

lemma read_resume_no_chat:
  "OllamaChat model messages format \<notin> set (snd (read_resume uploaded))"
  by (simp add: read_resume_def Let_def split: option.splits sum.splits)

text \<open>
  C7. When the job description or the extracted resume text is empty, the page never
  calls the analyzer: a run shows what the extraction showed and then, if the button was
  pressed, the warning; there is no call to the model server in the trace, whatever the
  server would have answered.
\<close>

theorem empty_input_never_analyzed:
  assumes "jd_input = [] \<or> fst (read_resume uploaded) = []"
  shows "main ollama_chat jd_input uploaded analyze_btn =
           snd (read_resume uploaded) @
             (if analyze_btn
              then [StWarning ''Please provide both the Job Description and the Resume.'']
              else [])
         \<and> (\<forall>model messages format.
               OllamaChat model messages format
                 \<notin> set (main ollama_chat jd_input uploaded analyze_btn))"
proof -
  have run: "main ollama_chat jd_input uploaded analyze_btn =
           snd (read_resume uploaded) @
             (if analyze_btn
              then [StWarning ''Please provide both the Job Description and the Resume.'']
              else [])"
    using assms by (cases "read_resume uploaded") (simp add: main_def)
  show ?thesis
    unfolding run using read_resume_no_chat [of _ _ _ uploaded] by simp
qed

lemma read_scenario_pdf:
  "read_resume (Some scenario_pdf) = (''Experienced in Python, Docker, and AWS.'', [])"
  by (simp add: read_resume_def scenario_pdf_def extract_text_from_pdf_def)

lemma read_broken_pdf:
  "read_resume (Some broken_pdf) =
     ([], [StErrorExn ''Error extracting text: '' (OtherException ''EOF marker not found'')])"
  by (simp add: read_resume_def broken_pdf_def extract_text_from_pdf_def)

theorem empty_input_never_analyzed_witness:
  "main (fixed_reply scenario_A_response) [] (Some scenario_pdf) True =
     [StWarning ''Please provide both the Job Description and the Resume.'']
   \<and> main (fixed_reply scenario_A_response) scenario_jd (Some broken_pdf) True =
     [StErrorExn ''Error extracting text: '' (OtherException ''EOF marker not found''),
      StWarning ''Please provide both the Job Description and the Resume.'']
   \<and> main (fixed_reply scenario_A_response) scenario_jd None False = []"
  using empty_input_never_analyzed
      [of "[]" "Some scenario_pdf" "fixed_reply scenario_A_response" True]
    empty_input_never_analyzed
      [of scenario_jd "Some broken_pdf" "fixed_reply scenario_A_response" True]
    empty_input_never_analyzed
      [of scenario_jd None "fixed_reply scenario_A_response" False]
    read_scenario_pdf read_broken_pdf
  by (simp add: read_resume_def)

end
